theory Spec2Isabelle
  imports Complex_Main
begin

section \<open>Data model of \<open>fp_generate_patterns.cpp\<close>\<close>

text \<open>
  The program computes on C++ \<open>float\<close> values with the operations collected below. They
  are taken as a parameter of the model, so that every theorem stated for an arbitrary
  \<open>'f arith\<close> holds for whatever arithmetic the compiled program uses (rounding, infinities,
  NaN and the overload chosen for \<open>abs\<close> included).
\<close>

record 'f arith =
  of_int32 :: "int \<Rightarrow> 'f"          \<comment> \<open>implicit conversion \<open>int\<close> to \<open>float\<close>\<close>
  fsub :: "'f \<Rightarrow> 'f \<Rightarrow> 'f"        \<comment> \<open>\<open>a - b\<close>\<close>
  fadd :: "'f \<Rightarrow> 'f \<Rightarrow> 'f"        \<comment> \<open>\<open>a + b\<close>\<close>
  fmul :: "'f \<Rightarrow> 'f \<Rightarrow> 'f"        \<comment> \<open>\<open>a * b\<close>\<close>
  fdiv :: "'f \<Rightarrow> 'f \<Rightarrow> 'f"        \<comment> \<open>\<open>a / b\<close>\<close>
  fabs :: "'f \<Rightarrow> 'f"              \<comment> \<open>\<open>abs(a)\<close>\<close>
  fless :: "'f \<Rightarrow> 'f \<Rightarrow> bool"     \<comment> \<open>\<open>a < b\<close>\<close>

text \<open>
  Exact arithmetic on the rationals, used to evaluate the model on concrete inputs. On the
  inputs used in this theory every operand and every result is a small integer or a dyadic
  rational with a short mantissa, hence representable in binary32, where the program's
  operations return the same values.
\<close>

definition exact :: "rat arith" where
  "exact = \<lparr>of_int32 = rat_of_int, fsub = (\<lambda>a b. a - b), fadd = (\<lambda>a b. a + b),
     fmul = (\<lambda>a b. a * b), fdiv = (\<lambda>a b. a / b), fabs = (\<lambda>a. \<bar>a\<bar>),
     fless = (\<lambda>a b. a < b)\<rparr>"


text \<open>\<open>struct timeval\<close>: seconds and microseconds, both \<open>long\<close>.\<close>

record timeval =
  tv_sec :: int
  tv_usec :: int

text \<open>
  One input line after the parsing of lines 211 to 230 (\<open>trim\<close>, \<open>sscanf\<close>, \<open>mktime\<close>,
  \<open>std::stod\<close>): the trimmed timestamp text \<open>p1\<close>, the time \<open>curtime\<close> and the value
  \<open>curval\<close>.
\<close>

record 'f line =
  p1 :: string
  curtime :: timeval
  curval :: "'f"

text \<open>The seven parameters, as the \<open>int\<close> values of the macros or of \<open>atoi\<close>.\<close>

record config =
  sampling :: int
  initial_avg_diff :: int
  number_of_points_to_alarm :: int
  wait_state_usec :: int
  multiplicator_to_detect :: int
  n_amend_avgdiff :: int
  pattern_state_usec :: int

text \<open>
  The variables of \<open>main\<close> that live across iterations of the read loop. \<open>isalarm\<close>,
  \<open>iswait\<close> and \<open>ispattern\<close> are \<open>short\<close>, \<open>lineid\<close> is \<open>long long\<close>, the other counters
  are \<open>int\<close>. \<open>cursample\<close> and \<open>numthresholded\<close> stay between 0 and a configured \<open>int\<close>;
  \<open>patternid\<close> and \<open>lineid\<close> are bounded by the number of lines read (lemma
  \<open>patternid_le_lineid\<close> below), so the model agrees with the machine integers on every
  input of fewer than \<open>2^31\<close> lines.
\<close>

record 'f vars =
  cursample :: int
  isalarm :: int
  iswait :: int
  numthresholded :: int
  alarmraisetime :: timeval
  patternraisetime :: timeval
  lineid :: int
  lastval :: "'f"
  diffavg :: "'f"
  patternid :: int
  ispattern :: int

text \<open>One data line of the output, in the order of the header.\<close>

record 'f outrec =
  o_lineid :: int
  o_timestamp :: string
  o_meas :: "'f"
  o_diff :: "'f"
  o_curavg :: "'f"
  o_isdetect :: int
  o_isalarm :: int
  o_iswait :: int
  o_patternid :: int

datatype 'f outline = Header | Data "'f outrec"

datatype diag =
  ArgumentsError int        \<comment> \<open>lines 100 to 102, with the number of arguments passed\<close>
| InvalidValues config      \<comment> \<open>lines 131 to 140, with the values listed\<close>

record 'f outcome =
  exit_status :: int
  cerr :: "diag list"
  cout :: "'f outline list"

section \<open>Arguments\<close>

definition defaults :: config where
  "defaults = \<lparr>sampling = 1, initial_avg_diff = 200, number_of_points_to_alarm = 5,
     wait_state_usec = 1000000, multiplicator_to_detect = 10, n_amend_avgdiff = 500,
     pattern_state_usec = 250000\<rparr>"

text \<open>
  Lines 99 to 144. \<open>args\<close> holds \<open>atoi(argv[1])\<close>, \<open>atoi(argv[2])\<close>, ...; \<open>argc\<close> is its
  length plus one. \<open>diffavg\<close> is a \<open>float\<close>, so its test is the float comparison.
\<close>

definition invalid_values :: "'f arith \<Rightarrow> config \<Rightarrow> bool" where
  "invalid_values A c \<longleftrightarrow>
     sampling c < 1 \<or>
     fless A (of_int32 A (initial_avg_diff c)) (of_int32 A 1) \<or>
     number_of_points_to_alarm c < 1 \<or>
     wait_state_usec c < 1 \<or>
     multiplicator_to_detect c < 1 \<or>
     n_amend_avgdiff c < 1 \<or>
     pattern_state_usec c < 1"

text \<open>Lines 109 to 115, for seven arguments.\<close>

definition from_argv :: "int list \<Rightarrow> config" where
  "from_argv args = \<lparr>sampling = args ! 0, initial_avg_diff = args ! 1,
     number_of_points_to_alarm = args ! 2, wait_state_usec = args ! 3,
     multiplicator_to_detect = args ! 4, n_amend_avgdiff = args ! 5,
     pattern_state_usec = args ! 6\<rparr>"

definition parse_arguments :: "'f arith \<Rightarrow> int list \<Rightarrow> diag + config" where
  "parse_arguments A args =
     (let argc = int (length args) + 1 in
      if argc > 1 \<and> argc < 8 then Inl (ArgumentsError (argc - 1))
      else
        let c = (if argc = 8 then from_argv args else defaults)
        in if invalid_values A c then Inl (InvalidValues c) else Inr c)"

section \<open>The read loop\<close>

text \<open>Lines 151 to 189. \<open>lastval\<close> is uninitialised there; line 233 writes it before its first read.\<close>

definition init :: "'f arith \<Rightarrow> config \<Rightarrow> 'f vars" where
  "init A c = \<lparr>cursample = sampling c, isalarm = 0, iswait = 0,
     numthresholded = number_of_points_to_alarm c,
     alarmraisetime = \<lparr>tv_sec = 0, tv_usec = 0\<rparr>,
     patternraisetime = \<lparr>tv_sec = 0, tv_usec = 0\<rparr>,
     lineid = 0, lastval = of_int32 A 0, diffavg = of_int32 A (initial_avg_diff c),
     patternid = 0, ispattern = 0\<rparr>"

text \<open>
  The time difference of lines 248 and 266, in microseconds. The program computes it in
  \<open>long\<close> (64 bits); the model uses unbounded integers, which agree as long as the two
  times are less than \<open>2^63 / 10^6\<close> seconds apart.
\<close>

definition elapsed_usec :: "timeval \<Rightarrow> timeval \<Rightarrow> int" where
  "elapsed_usec t t0 = (tv_sec t - tv_sec t0) * 1000000 + (tv_usec t - tv_usec t0)"

text \<open>Lines 241 to 251.\<close>

definition pattern_evaluation :: "config \<Rightarrow> timeval \<Rightarrow> 'f vars \<Rightarrow> 'f vars" where
  "pattern_evaluation c t v =
     (if ispattern v = 1
      then (if elapsed_usec t (patternraisetime v) > pattern_state_usec c
            then v\<lparr>ispattern := 0\<rparr> else v)
      else v)"

text \<open>Lines 261 to 267: the branch taken in the wait state.\<close>

definition wait_state :: "config \<Rightarrow> timeval \<Rightarrow> 'f vars \<Rightarrow> 'f vars" where
  "wait_state c t v =
     (let v = v\<lparr>isalarm := 0\<rparr> in
      if elapsed_usec t (alarmraisetime v) > wait_state_usec c
      then v\<lparr>iswait := 0\<rparr> else v)"

text \<open>Lines 273 to 295: the branch taken outside the wait state.\<close>

definition thresholding :: "'f arith \<Rightarrow> config \<Rightarrow> timeval \<Rightarrow> 'f \<Rightarrow> 'f vars \<Rightarrow> 'f vars" where
  "thresholding A c t diff v =
     (if fless A diff (fmul A (of_int32 A (multiplicator_to_detect c)) (diffavg v))
      then v\<lparr>numthresholded := number_of_points_to_alarm c\<rparr>
      else
        let v = v\<lparr>numthresholded := numthresholded v - 1\<rparr> in
        if numthresholded v = 0
        then v\<lparr>isalarm := 1, alarmraisetime := t, iswait := 1,
                numthresholded := number_of_points_to_alarm c,
                patternid := patternid v + 1, ispattern := 1, patternraisetime := t\<rparr>
        else v)"

text \<open>Lines 255 to 296.\<close>

definition alarm_evaluation :: "'f arith \<Rightarrow> config \<Rightarrow> timeval \<Rightarrow> 'f \<Rightarrow> 'f vars \<Rightarrow> 'f vars" where
  "alarm_evaluation A c t diff v =
     (if iswait v = 1 then wait_state c t v else thresholding A c t diff v)"

text \<open>The new value of \<open>diffavg\<close> at line 302.\<close>

definition amended :: "'f arith \<Rightarrow> config \<Rightarrow> 'f \<Rightarrow> 'f \<Rightarrow> 'f" where
  "amended A c avg diff =
     fdiv A (fadd A (fmul A avg (of_int32 A (n_amend_avgdiff c - 1))) diff)
       (of_int32 A (n_amend_avgdiff c))"

text \<open>Lines 301 and 302.\<close>

definition amend_diffavg :: "'f arith \<Rightarrow> config \<Rightarrow> 'f \<Rightarrow> 'f vars \<Rightarrow> 'f vars" where
  "amend_diffavg A c diff v =
     (if iswait v = 0 \<and> numthresholded v = number_of_points_to_alarm c
      then v\<lparr>diffavg := amended A c (diffavg v) diff\<rparr> else v)"

text \<open>Lines 318 to 322.\<close>

definition output_record :: "config \<Rightarrow> 'f line \<Rightarrow> 'f \<Rightarrow> 'f vars \<Rightarrow> 'f outrec" where
  "output_record c row diffnoabs v =
     \<lparr>o_lineid = lineid v, o_timestamp = p1 row, o_meas = curval row, o_diff = diffnoabs,
      o_curavg = diffavg v,
      o_isdetect = (if numthresholded v = number_of_points_to_alarm c then 0 else 1),
      o_isalarm = isalarm v, o_iswait = iswait v,
      o_patternid = (if ispattern v \<noteq> 0 then patternid v else 0)\<rparr>"

text \<open>Line 233: \<open>if (!lineid++) lastval = curval;\<close>\<close>

definition count_line :: "'f line \<Rightarrow> 'f vars \<Rightarrow> 'f vars" where
  "count_line row v =
     (if lineid v = 0 then v\<lparr>lineid := lineid v + 1, lastval := curval row\<rparr>
      else v\<lparr>lineid := lineid v + 1\<rparr>)"

text \<open>Lines 233 to 322: what is done with a line that the sampling lets through.\<close>

definition process :: "'f arith \<Rightarrow> config \<Rightarrow> 'f line \<Rightarrow> 'f vars \<Rightarrow> 'f vars \<times> 'f outrec" where
  "process A c row v =
     (let v = count_line row v;
          diffnoabs = fsub A (curval row) (lastval v);
          diff = fabs A diffnoabs;
          v = pattern_evaluation c (curtime row) v;
          v = alarm_evaluation A c (curtime row) diff v;
          v = amend_diffavg A c diff v;
          v = v\<lparr>lastval := curval row\<rparr>
      in (v, output_record c row diffnoabs v))"

text \<open>Lines 201 to 208, then the rest of the loop body: \<open>None\<close> when the line is sampled out.\<close>

definition loop_body :: "'f arith \<Rightarrow> config \<Rightarrow> 'f line \<Rightarrow> 'f vars \<Rightarrow> 'f vars \<times> 'f outrec option" where
  "loop_body A c row v =
     (if cursample v > 1 then (v\<lparr>cursample := cursample v - 1\<rparr>, None)
      else
        let (v', r) = process A c row (v\<lparr>cursample := sampling c\<rparr>)
        in (v', Some r))"

text \<open>The \<open>while\<close> loop of line 194 over the lines of the input, with the records printed.\<close>

fun main_loop :: "'f arith \<Rightarrow> config \<Rightarrow> 'f vars \<Rightarrow> 'f line list \<Rightarrow> 'f vars \<times> 'f outrec list" where
  "main_loop A c v [] = (v, [])"
| "main_loop A c v (row # lns) =
     (let (v', r) = loop_body A c row v;
          (v'', rs) = main_loop A c v' lns
      in (v'', (case r of None \<Rightarrow> rs | Some x \<Rightarrow> x # rs)))"

definition main :: "'f arith \<Rightarrow> int list \<Rightarrow> 'f line list \<Rightarrow> 'f outcome" where
  "main A args lns =
     (case parse_arguments A args of
        Inl d \<Rightarrow> \<lparr>exit_status = 1, cerr = [d], cout = []\<rparr>
      | Inr c \<Rightarrow> \<lparr>exit_status = 0, cerr = [],
                   cout = Header # map Data (snd (main_loop A c (init A c) lns))\<rparr>)"

text \<open>The variables after the lines \<open>lns\<close>, and the records printed for them.\<close>

definition vars_after :: "'f arith \<Rightarrow> config \<Rightarrow> 'f line list \<Rightarrow> 'f vars" where
  "vars_after A c lns = fst (main_loop A c (init A c) lns)"

definition records :: "'f arith \<Rightarrow> config \<Rightarrow> 'f line list \<Rightarrow> 'f outrec list" where
  "records A c lns = snd (main_loop A c (init A c) lns)"

section \<open>Notions used in the statements\<close>

text \<open>
  The value of \<open>diff\<close> at line 238 for the line \<open>row\<close> read with the variables \<open>v\<close>, and
  the right-hand side of the comparison of line 273.
\<close>

definition diff_of :: "'f arith \<Rightarrow> 'f line \<Rightarrow> 'f vars \<Rightarrow> 'f" where
  "diff_of A row v = fabs A (fsub A (curval row) (lastval (count_line row v)))"

definition threshold :: "'f arith \<Rightarrow> config \<Rightarrow> 'f vars \<Rightarrow> 'f" where
  "threshold A c v = fmul A (of_int32 A (multiplicator_to_detect c)) (diffavg v)"

text \<open>The condition under which line 285 is reached: the alarm is raised on this line.\<close>

definition alarm_raised :: "'f arith \<Rightarrow> config \<Rightarrow> 'f line \<Rightarrow> 'f vars \<Rightarrow> bool" where
  "alarm_raised A c row v \<longleftrightarrow>
     iswait v \<noteq> 1 \<and> \<not> fless A (diff_of A row v) (threshold A c v) \<and> numthresholded v - 1 = 0"

text \<open>
  The loop body from line 210 on, iterated over the lines that reach it, and the lines at
  the positions \<open>k\<close>, \<open>2k\<close>, \<open>3k\<close>, ... of a list (counted from 1). \<open>pick k j\<close> takes
  the \<open>j\<close>-th line and every \<open>k\<close>-th one after it.
\<close>

fun core :: "'f arith \<Rightarrow> config \<Rightarrow> 'f vars \<Rightarrow> 'f line list \<Rightarrow> 'f vars \<times> 'f outrec list" where
  "core A c v [] = (v, [])"
| "core A c v (row # rows) =
     (let (v', r) = process A c row v;
          (v'', rs) = core A c v' rows
      in (v'', r # rs))"

definition every_nth :: "nat \<Rightarrow> 'a list \<Rightarrow> 'a list" where
  "every_nth k xs = map (\<lambda>i. xs ! (k * (i + 1) - 1)) [0..<length xs div k]"

fun pick :: "nat \<Rightarrow> nat \<Rightarrow> 'a list \<Rightarrow> 'a list" where
  "pick k j [] = []"
| "pick k j (x # xs) = (if j > 1 then pick k (j - 1) xs else x # pick k k xs)"

text \<open>What holds of the variables between two iterations of the loop.\<close>

definition vars_ok :: "config \<Rightarrow> 'f vars \<Rightarrow> bool" where
  "vars_ok c v \<longleftrightarrow>
     1 \<le> cursample v \<and> cursample v \<le> sampling c \<and>
     1 \<le> numthresholded v \<and> numthresholded v \<le> number_of_points_to_alarm c \<and>
     (iswait v = 0 \<or> iswait v = 1) \<and> (isalarm v = 0 \<or> isalarm v = 1) \<and>
     (isalarm v = 1 \<longrightarrow> iswait v = 1) \<and>
     (iswait v = 1 \<longrightarrow> numthresholded v = number_of_points_to_alarm c) \<and>
     0 \<le> patternid v \<and> patternid v \<le> lineid v"

text \<open>
  The one property of the arithmetic that the test \<open>diffavg < 1\<close> of line 125 relies on:
  converting an \<open>int\<close> to \<open>float\<close> keeps its order with respect to 1.
\<close>

definition compares_ints :: "'f arith \<Rightarrow> bool" where
  "compares_ints A \<longleftrightarrow> (\<forall>i. fless A (of_int32 A i) (of_int32 A 1) \<longleftrightarrow> i < 1)"

section \<open>Concrete inputs\<close>

text \<open>A line read at \<open>us\<close> microseconds with the value \<open>x\<close>.\<close>

definition sample :: "int \<Rightarrow> rat \<Rightarrow> rat line" where
  "sample us x = \<lparr>p1 = [], curtime = \<lparr>tv_sec = 0, tv_usec = us\<rparr>, curval = x\<rparr>"

text \<open>
  Four configurations: run length 2, run length 1, all parameters 1, and sampling 3.
\<close>

definition conf_b :: config where
  "conf_b = \<lparr>sampling = 1, initial_avg_diff = 2, number_of_points_to_alarm = 2,
     wait_state_usec = 10, multiplicator_to_detect = 3, n_amend_avgdiff = 2,
     pattern_state_usec = 1\<rparr>"

definition conf_d :: config where
  "conf_d = \<lparr>sampling = 1, initial_avg_diff = 2, number_of_points_to_alarm = 1,
     wait_state_usec = 10, multiplicator_to_detect = 3, n_amend_avgdiff = 2,
     pattern_state_usec = 1\<rparr>"

definition conf_1 :: config where
  "conf_1 = \<lparr>sampling = 1, initial_avg_diff = 1, number_of_points_to_alarm = 1,
     wait_state_usec = 1, multiplicator_to_detect = 1, n_amend_avgdiff = 1,
     pattern_state_usec = 1\<rparr>"

definition conf_c :: config where
  "conf_c = \<lparr>sampling = 3, initial_avg_diff = 200, number_of_points_to_alarm = 5,
     wait_state_usec = 1000000, multiplicator_to_detect = 10, n_amend_avgdiff = 2,
     pattern_state_usec = 250000\<rparr>"

definition nine :: "rat line list" where
  "nine = [sample 1 1, sample 2 2, sample 3 3, sample 4 4, sample 5 5, sample 6 6,
     sample 7 7, sample 8 8, sample 9 9]"

text \<open>
  Values of the variables (with \<open>cursample = 1\<close> and both raise times at \<open>rt\<close>
  microseconds) and of an output record, to write down the results of concrete runs.
\<close>

definition vars_at :: "int \<Rightarrow> int \<Rightarrow> int \<Rightarrow> int \<Rightarrow> int \<Rightarrow> rat \<Rightarrow> rat \<Rightarrow> int \<Rightarrow> int \<Rightarrow> rat vars" where
  "vars_at al wt nt rt li lv da pid pt =
     \<lparr>cursample = 1, isalarm = al, iswait = wt, numthresholded = nt,
      alarmraisetime = \<lparr>tv_sec = 0, tv_usec = rt\<rparr>,
      patternraisetime = \<lparr>tv_sec = 0, tv_usec = rt\<rparr>,
      lineid = li, lastval = lv, diffavg = da, patternid = pid, ispattern = pt\<rparr>"

definition rec_at :: "int \<Rightarrow> rat \<Rightarrow> rat \<Rightarrow> rat \<Rightarrow> int \<Rightarrow> int \<Rightarrow> int \<Rightarrow> int \<Rightarrow> rat outrec" where
  "rec_at li m d a dt al wt pid =
     \<lparr>o_lineid = li, o_timestamp = [], o_meas = m, o_diff = d, o_curavg = a,
      o_isdetect = dt, o_isalarm = al, o_iswait = wt, o_patternid = pid\<rparr>"

section \<open>The stages of the loop body, field by field\<close>

lemma count_line_fields:
  "cursample (count_line row v) = cursample v"
  "isalarm (count_line row v) = isalarm v"
  "iswait (count_line row v) = iswait v"
  "numthresholded (count_line row v) = numthresholded v"
  "alarmraisetime (count_line row v) = alarmraisetime v"
  "patternraisetime (count_line row v) = patternraisetime v"
  "diffavg (count_line row v) = diffavg v"
  "patternid (count_line row v) = patternid v"
  "ispattern (count_line row v) = ispattern v"
  "lineid (count_line row v) = lineid v + 1"
  "lastval (count_line row v) = (if lineid v = 0 then curval row else lastval v)"
  by (simp_all add: count_line_def)

lemma pattern_evaluation_fields:
  "cursample (pattern_evaluation c t v) = cursample v"
  "isalarm (pattern_evaluation c t v) = isalarm v"
  "iswait (pattern_evaluation c t v) = iswait v"
  "numthresholded (pattern_evaluation c t v) = numthresholded v"
  "alarmraisetime (pattern_evaluation c t v) = alarmraisetime v"
  "patternraisetime (pattern_evaluation c t v) = patternraisetime v"
  "diffavg (pattern_evaluation c t v) = diffavg v"
  "patternid (pattern_evaluation c t v) = patternid v"
  "lineid (pattern_evaluation c t v) = lineid v"
  "lastval (pattern_evaluation c t v) = lastval v"
  "ispattern (pattern_evaluation c t v) =
     (if ispattern v = 1 \<and> elapsed_usec t (patternraisetime v) > pattern_state_usec c
      then 0 else ispattern v)"
  by (simp_all add: pattern_evaluation_def)

lemma wait_state_fields:
  "cursample (wait_state c t v) = cursample v"
  "isalarm (wait_state c t v) = 0"
  "iswait (wait_state c t v) =
     (if elapsed_usec t (alarmraisetime v) > wait_state_usec c then 0 else iswait v)"
  "numthresholded (wait_state c t v) = numthresholded v"
  "alarmraisetime (wait_state c t v) = alarmraisetime v"
  "patternraisetime (wait_state c t v) = patternraisetime v"
  "diffavg (wait_state c t v) = diffavg v"
  "patternid (wait_state c t v) = patternid v"
  "lineid (wait_state c t v) = lineid v"
  "lastval (wait_state c t v) = lastval v"
  "ispattern (wait_state c t v) = ispattern v"
  by (simp_all add: wait_state_def Let_def)

lemma thresholding_fields:
  "cursample (thresholding A c t d v) = cursample v"
  "diffavg (thresholding A c t d v) = diffavg v"
  "lineid (thresholding A c t d v) = lineid v"
  "lastval (thresholding A c t d v) = lastval v"
  "isalarm (thresholding A c t d v) =
     (if \<not> fless A d (threshold A c v) \<and> numthresholded v - 1 = 0 then 1 else isalarm v)"
  "iswait (thresholding A c t d v) =
     (if \<not> fless A d (threshold A c v) \<and> numthresholded v - 1 = 0 then 1 else iswait v)"
  "patternid (thresholding A c t d v) =
     (if \<not> fless A d (threshold A c v) \<and> numthresholded v - 1 = 0
      then patternid v + 1 else patternid v)"
  "ispattern (thresholding A c t d v) =
     (if \<not> fless A d (threshold A c v) \<and> numthresholded v - 1 = 0 then 1 else ispattern v)"
  "alarmraisetime (thresholding A c t d v) =
     (if \<not> fless A d (threshold A c v) \<and> numthresholded v - 1 = 0 then t else alarmraisetime v)"
  "patternraisetime (thresholding A c t d v) =
     (if \<not> fless A d (threshold A c v) \<and> numthresholded v - 1 = 0 then t
      else patternraisetime v)"
  "numthresholded (thresholding A c t d v) =
     (if fless A d (threshold A c v) then number_of_points_to_alarm c
      else if numthresholded v - 1 = 0 then number_of_points_to_alarm c
      else numthresholded v - 1)"
  by (simp_all add: thresholding_def threshold_def Let_def)

lemma amend_diffavg_fields:
  "cursample (amend_diffavg A c d v) = cursample v"
  "isalarm (amend_diffavg A c d v) = isalarm v"
  "iswait (amend_diffavg A c d v) = iswait v"
  "numthresholded (amend_diffavg A c d v) = numthresholded v"
  "alarmraisetime (amend_diffavg A c d v) = alarmraisetime v"
  "patternraisetime (amend_diffavg A c d v) = patternraisetime v"
  "patternid (amend_diffavg A c d v) = patternid v"
  "lineid (amend_diffavg A c d v) = lineid v"
  "lastval (amend_diffavg A c d v) = lastval v"
  "ispattern (amend_diffavg A c d v) = ispattern v"
  "diffavg (amend_diffavg A c d v) =
     (if iswait v = 0 \<and> numthresholded v = number_of_points_to_alarm c
      then amended A c (diffavg v) d else diffavg v)"
  by (simp_all add: amend_diffavg_def)

lemmas stage_fields = count_line_fields pattern_evaluation_fields wait_state_fields
  thresholding_fields amend_diffavg_fields

lemma process_cursample: "cursample (fst (process A c row v)) = cursample v"
  by (simp add: process_def Let_def alarm_evaluation_def stage_fields)

lemma process_lineid: "lineid (fst (process A c row v)) = lineid v + 1"
  by (simp add: process_def Let_def alarm_evaluation_def stage_fields)

lemma process_lastval: "lastval (fst (process A c row v)) = curval row"
  by (simp add: process_def Let_def)

lemma process_isalarm:
  "isalarm (fst (process A c row v)) =
     (if iswait v = 1 then 0 else if alarm_raised A c row v then 1 else isalarm v)"
  by (simp add: process_def Let_def alarm_evaluation_def stage_fields alarm_raised_def
      diff_of_def threshold_def)

lemma process_iswait:
  "iswait (fst (process A c row v)) =
     (if iswait v = 1
      then (if elapsed_usec (curtime row) (alarmraisetime v) > wait_state_usec c then 0 else 1)
      else if alarm_raised A c row v then 1 else iswait v)"
  by (simp add: process_def Let_def alarm_evaluation_def stage_fields alarm_raised_def
      diff_of_def threshold_def)

lemma process_patternid:
  "patternid (fst (process A c row v)) =
     (if alarm_raised A c row v then patternid v + 1 else patternid v)"
  by (simp add: process_def Let_def alarm_evaluation_def stage_fields alarm_raised_def
      diff_of_def threshold_def)

lemma process_alarmraisetime:
  "alarmraisetime (fst (process A c row v)) =
     (if alarm_raised A c row v then curtime row else alarmraisetime v)"
  by (simp add: process_def Let_def alarm_evaluation_def stage_fields alarm_raised_def
      diff_of_def threshold_def)

lemma process_numthresholded:
  "numthresholded (fst (process A c row v)) =
     (if iswait v = 1 then numthresholded v
      else if fless A (diff_of A row v) (threshold A c v) then number_of_points_to_alarm c
      else if numthresholded v - 1 = 0 then number_of_points_to_alarm c
      else numthresholded v - 1)"
  by (simp add: process_def Let_def alarm_evaluation_def stage_fields
      diff_of_def threshold_def)

lemma process_ispattern:
  "ispattern (fst (process A c row v)) =
     (if alarm_raised A c row v then 1
      else if ispattern v = 1 \<and>
              elapsed_usec (curtime row) (patternraisetime v) > pattern_state_usec c
      then 0 else ispattern v)"
  by (simp add: process_def Let_def alarm_evaluation_def stage_fields alarm_raised_def
      diff_of_def threshold_def)


lemma process_record:
  "o_lineid (snd (process A c row v)) = lineid v + 1"
  "o_timestamp (snd (process A c row v)) = p1 row"
  "o_meas (snd (process A c row v)) = curval row"
  "o_curavg (snd (process A c row v)) = diffavg (fst (process A c row v))"
  "o_isdetect (snd (process A c row v)) =
     (if numthresholded (fst (process A c row v)) = number_of_points_to_alarm c then 0 else 1)"
  "o_isalarm (snd (process A c row v)) = isalarm (fst (process A c row v))"
  "o_iswait (snd (process A c row v)) = iswait (fst (process A c row v))"
  "o_patternid (snd (process A c row v)) =
     (if ispattern (fst (process A c row v)) \<noteq> 0 then patternid (fst (process A c row v))
      else 0)"
  by (simp_all add: process_def Let_def output_record_def alarm_evaluation_def stage_fields)

section \<open>The loop\<close>

lemma process_cursample_indep:
  "process A c row (v\<lparr>cursample := x\<rparr>) =
     (fst (process A c row v)\<lparr>cursample := x\<rparr>, snd (process A c row v))"
proof -
  have 1: "count_line row (v\<lparr>cursample := x\<rparr>) = (count_line row v)\<lparr>cursample := x\<rparr>"
    by (simp add: count_line_def)
  have 2: "\<And>t u. pattern_evaluation c t (u\<lparr>cursample := x\<rparr>) = (pattern_evaluation c t u)\<lparr>cursample := x\<rparr>"
    by (simp add: pattern_evaluation_def)
  have 3: "\<And>t d u. alarm_evaluation A c t d (u\<lparr>cursample := x\<rparr>) = (alarm_evaluation A c t d u)\<lparr>cursample := x\<rparr>"
    by (simp add: alarm_evaluation_def wait_state_def thresholding_def Let_def)
  have 4: "\<And>d u. amend_diffavg A c d (u\<lparr>cursample := x\<rparr>) = (amend_diffavg A c d u)\<lparr>cursample := x\<rparr>"
    by (simp add: amend_diffavg_def)
  have 5: "\<And>d u. output_record c row d (u\<lparr>cursample := x\<rparr>) = output_record c row d u"
    by (simp add: output_record_def)
  have 6: "\<And>d u y. output_record c row d (u\<lparr>cursample := x, lastval := y\<rparr>) =
      output_record c row d (u\<lparr>lastval := y\<rparr>)"
    by (simp add: output_record_def)
  show ?thesis
    by (simp add: process_def Let_def 1 2 3 4 5 6)
qed

lemma loop_body_Some:
  "loop_body A c row v = (v', Some r) \<longleftrightarrow>
     cursample v \<le> 1 \<and> v' = fst (process A c row v)\<lparr>cursample := sampling c\<rparr> \<and>
     r = snd (process A c row v)"
  by (auto simp: loop_body_def process_cursample_indep)

lemma loop_body_None:
  "loop_body A c row v = (v', None) \<longleftrightarrow> 1 < cursample v \<and> v' = v\<lparr>cursample := cursample v - 1\<rparr>"
  by (auto simp: loop_body_def process_cursample_indep)

lemma main_loop_append:
  "main_loop A c v (xs @ ys) =
     (fst (main_loop A c (fst (main_loop A c v xs)) ys),
      snd (main_loop A c v xs) @ snd (main_loop A c (fst (main_loop A c v xs)) ys))"
  by (induction xs arbitrary: v) (simp_all add: split_beta split: option.splits)

lemma vars_after_snoc:
  "vars_after A c (lns @ [row]) = fst (loop_body A c row (vars_after A c lns))"
  by (simp add: vars_after_def main_loop_append split_beta)

lemma records_snoc:
  "records A c (lns @ [row]) =
     records A c lns @ (case snd (loop_body A c row (vars_after A c lns)) of None \<Rightarrow> [] | Some r \<Rightarrow> [r])"
  by (simp add: records_def vars_after_def main_loop_append split_beta split: option.splits)

lemma main_loop_silent:
  "snd (main_loop A c v sk) = [] \<Longrightarrow>
     fst (main_loop A c v sk) = v\<lparr>cursample := cursample v - int (length sk)\<rparr>"
proof (induction sk arbitrary: v)
  case Nil
  then show ?case by simp
next
  case (Cons row sk)
  show ?case
  proof (cases "1 < cursample v")
    case True
    then have l: "loop_body A c row v = (v\<lparr>cursample := cursample v - 1\<rparr>, None)"
      by (simp add: loop_body_None)
    with Cons.prems have "snd (main_loop A c (v\<lparr>cursample := cursample v - 1\<rparr>) sk) = []"
      by (simp add: split_beta)
    from Cons.IH [OF this] l show ?thesis by (simp add: split_beta)
  next
    case False
    then have "snd (loop_body A c row v) \<noteq> None"
      by (simp add: loop_body_def split_beta)
    with Cons.prems show ?thesis by (auto simp: split_beta)
  qed
qed

lemma next_accepted:
  assumes "loop_body A c row0 (vars_after A c lns) = (v0, Some r0)"
    and "records A c (lns @ row0 # sk) = records A c (lns @ [row0])"
    and "loop_body A c row1 (vars_after A c (lns @ row0 # sk)) = (v1, Some r1)"
  shows "v1 = fst (process A c row1 v0)\<lparr>cursample := sampling c\<rparr>"
    and "r1 = snd (process A c row1 v0)"
proof -
  have v0: "vars_after A c (lns @ [row0]) = v0"
    using assms(1) by (simp add: vars_after_snoc)
  have "records A c ((lns @ [row0]) @ sk) =
      records A c (lns @ [row0]) @ snd (main_loop A c (vars_after A c (lns @ [row0])) sk)"
    unfolding records_def vars_after_def by (subst main_loop_append) simp
  with assms(2) have "snd (main_loop A c v0 sk) = []" by (simp add: v0)
  then have "fst (main_loop A c v0 sk) = v0\<lparr>cursample := cursample v0 - int (length sk)\<rparr>"
    by (rule main_loop_silent)
  moreover have "vars_after A c ((lns @ [row0]) @ sk) =
      fst (main_loop A c (vars_after A c (lns @ [row0])) sk)"
    unfolding vars_after_def by (subst main_loop_append) simp
  ultimately have "vars_after A c (lns @ row0 # sk) =
      v0\<lparr>cursample := cursample v0 - int (length sk)\<rparr>"
    by (simp add: v0)
  with assms(3) show "v1 = fst (process A c row1 v0)\<lparr>cursample := sampling c\<rparr>"
    and "r1 = snd (process A c row1 v0)"
    by (simp_all add: loop_body_Some process_cursample_indep)
qed

section \<open>Invariant\<close>

lemma vars_ok_init:
  "1 \<le> sampling c \<Longrightarrow> 1 \<le> number_of_points_to_alarm c \<Longrightarrow> vars_ok c (init A c)"
  by (simp add: vars_ok_def init_def)

lemma vars_ok_process: "vars_ok c v \<Longrightarrow> vars_ok c (fst (process A c row v))"
  unfolding vars_ok_def
  by (elim conjE disjE; simp add: process_cursample process_lineid process_isalarm process_iswait
      process_patternid process_numthresholded alarm_raised_def)

lemma vars_ok_loop_body: "vars_ok c v \<Longrightarrow> vars_ok c (fst (loop_body A c row v))"
proof (cases "snd (loop_body A c row v)")
  case None
  then have "loop_body A c row v = (fst (loop_body A c row v), None)"
    by (metis prod.collapse)
  then have "1 < cursample v" "fst (loop_body A c row v) = v\<lparr>cursample := cursample v - 1\<rparr>"
    by (simp_all add: loop_body_None)
  then show "vars_ok c v \<Longrightarrow> ?thesis" by (simp add: vars_ok_def)
next
  case (Some r)
  assume ok: "vars_ok c v"
  from Some have "loop_body A c row v = (fst (loop_body A c row v), Some r)"
    by (metis prod.collapse)
  then have *: "fst (loop_body A c row v) = fst (process A c row v)\<lparr>cursample := sampling c\<rparr>"
    by (simp add: loop_body_Some)
  have "vars_ok c (fst (process A c row v))" using ok by (rule vars_ok_process)
  then show ?thesis unfolding * by (simp add: vars_ok_def)
qed

lemma vars_ok_vars_after:
  "1 \<le> sampling c \<Longrightarrow> 1 \<le> number_of_points_to_alarm c \<Longrightarrow> vars_ok c (vars_after A c lns)"
proof (induction lns rule: rev_induct)
  case Nil
  then show ?case by (simp add: vars_after_def vars_ok_init)
next
  case (snoc row lns)
  then show ?case by (simp add: vars_after_snoc vars_ok_loop_body)
qed

lemma parse_arguments_valid:
  "parse_arguments A args = Inr c \<Longrightarrow> \<not> invalid_values A c"
  by (auto simp: parse_arguments_def Let_def split: if_splits)

lemma valid_bounds:
  "\<not> invalid_values A c \<Longrightarrow> 1 \<le> sampling c \<and> 1 \<le> number_of_points_to_alarm c \<and>
     1 \<le> wait_state_usec c \<and> 1 \<le> multiplicator_to_detect c \<and> 1 \<le> n_amend_avgdiff c \<and>
     1 \<le> pattern_state_usec c"
  by (auto simp: invalid_values_def)

lemma vars_ok_run:
  "parse_arguments A args = Inr c \<Longrightarrow> vars_ok c (vars_after A c lns)"
  using parse_arguments_valid valid_bounds vars_ok_vars_after by blast

lemma accepted_step:
  assumes "parse_arguments A args = Inr c" and "v = vars_after A c lns"
    and "loop_body A c row v = (v', Some r)"
  shows "vars_ok c v" and "vars_ok c v'"
    and "v' = fst (process A c row v)\<lparr>cursample := sampling c\<rparr>"
    and "r = snd (process A c row v)"
proof -
  show ok: "vars_ok c v" using assms(1,2) by (simp add: vars_ok_run)
  show "vars_ok c v'" using vars_ok_loop_body [OF ok, of A row] assms(3) by simp
  show "v' = fst (process A c row v)\<lparr>cursample := sampling c\<rparr>"
    and "r = snd (process A c row v)"
    using assms(3) by (simp_all add: loop_body_Some)
qed

lemma accepted_isalarm:
  assumes "parse_arguments A args = Inr c" and "v = vars_after A c lns"
    and "loop_body A c row v = (v', Some r)"
  shows "o_isalarm r = (if alarm_raised A c row v then 1 else 0)"
    and "alarm_raised A c row v \<longrightarrow> iswait v \<noteq> 1 \<and> iswait v' = 1"
proof -
  note s = accepted_step [OF assms]
  have a: "o_isalarm r = (if iswait v = 1 then 0 else if alarm_raised A c row v then 1 else isalarm v)"
    unfolding s(4) by (simp add: process_record process_isalarm)
  have i: "isalarm v = 1 \<longrightarrow> iswait v = 1" "isalarm v = 0 \<or> isalarm v = 1"
    using s(1) by (simp_all add: vars_ok_def)
  have n: "alarm_raised A c row v \<longrightarrow> iswait v \<noteq> 1" by (simp add: alarm_raised_def)
  from a i n show "o_isalarm r = (if alarm_raised A c row v then 1 else 0)" by auto
  have "alarm_raised A c row v \<longrightarrow> iswait v' = 1"
    unfolding s(3) by (simp add: process_iswait alarm_raised_def)
  with n show "alarm_raised A c row v \<longrightarrow> iswait v \<noteq> 1 \<and> iswait v' = 1" by simp
qed

lemma loop_body_patternid:
  "patternid (fst (loop_body A c row v)) =
     patternid v + (if snd (loop_body A c row v) \<noteq> None \<and> alarm_raised A c row v then 1 else 0)"
proof (cases "1 < cursample v")
  case True
  then show ?thesis by (simp add: loop_body_def)
next
  case False
  then show ?thesis
    by (simp add: loop_body_def split_beta process_cursample_indep process_patternid)
qed

lemma main_loop_patternid: "patternid v \<le> patternid (fst (main_loop A c v lns))"
proof (induction lns arbitrary: v)
  case Nil
  then show ?case by simp
next
  case (Cons row lns)
  have "patternid v \<le> patternid (fst (loop_body A c row v))"
    by (simp add: loop_body_patternid)
  also have "\<dots> \<le> patternid (fst (main_loop A c (fst (loop_body A c row v)) lns))"
    by (rule Cons.IH)
  finally show ?case by (simp add: split_beta)
qed

lemma main_loop_lineid:
  "lineid (fst (main_loop A c v lns)) \<le> lineid v + int (length lns)"
proof (induction lns arbitrary: v)
  case Nil
  then show ?case by simp
next
  case (Cons row lns)
  have "lineid (fst (loop_body A c row v)) \<le> lineid v + 1"
    by (simp add: loop_body_def split_beta process_cursample_indep process_lineid)
  moreover have "lineid (fst (main_loop A c (fst (loop_body A c row v)) lns))
      \<le> lineid (fst (loop_body A c row v)) + int (length lns)"
    by (rule Cons.IH)
  ultimately show ?case by (simp add: split_beta)
qed

lemma patternid_le_lineid:
  assumes "parse_arguments A args = Inr c"
  shows "0 \<le> patternid (vars_after A c lns) \<and>
     patternid (vars_after A c lns) \<le> lineid (vars_after A c lns) \<and>
     lineid (vars_after A c lns) \<le> int (length lns)"
proof -
  have "vars_ok c (vars_after A c lns)" using assms by (rule vars_ok_run)
  moreover have "lineid (vars_after A c lns) \<le> int (length lns)"
    using main_loop_lineid [of A c "init A c" lns] by (simp add: vars_after_def init_def)
  ultimately show ?thesis by (simp add: vars_ok_def)
qed

section \<open>Sampling\<close>

lemma pick_nth:
  "1 \<le> j \<Longrightarrow> j \<le> k \<Longrightarrow>
     pick k j xs = map (\<lambda>i. xs ! (j - 1 + k * i)) [0..<(length xs + k - j) div k]"
proof (induction xs arbitrary: j)
  case Nil
  then show ?case by simp
next
  case (Cons x xs)
  show ?case
  proof (cases "j > 1")
    case True
    with Cons.prems have "pick k (j - 1) xs =
        map (\<lambda>i. xs ! (j - 1 - 1 + k * i)) [0..<(length xs + k - (j - 1)) div k]"
      by (intro Cons.IH) auto
    moreover have "length xs + k - (j - 1) = length (x # xs) + k - j"
      using True Cons.prems by simp
    moreover have "\<And>i. (x # xs) ! (j - 1 + k * i) = xs ! (j - 1 - 1 + k * i)"
      using True by (simp add: nth_Cons')
    ultimately show ?thesis using True by simp
  next
    case False
    with Cons.prems have j: "j = 1" by simp
    have k: "0 < k" using Cons.prems by simp
    have "pick k k xs = map (\<lambda>i. xs ! (k - 1 + k * i)) [0..<(length xs + k - k) div k]"
      using k by (intro Cons.IH) auto
    moreover have "(length (x # xs) + k - 1) div k = Suc (length xs div k)"
      using k by simp
    moreover have "\<And>i. (x # xs) ! (k * Suc i) = xs ! (k - 1 + k * i)"
      using k by (simp add: nth_Cons' algebra_simps)
    ultimately show ?thesis using j
      by (simp add: map_upt_Suc del: upt_Suc)
  qed
qed

lemma pick_every_nth: "1 \<le> k \<Longrightarrow> pick k k xs = every_nth k xs"
proof -
  assume k: "1 \<le> k"
  have "\<And>i. k - 1 + k * i = k * (i + 1) - 1" using k by (simp add: algebra_simps)
  then show ?thesis using k by (simp add: pick_nth every_nth_def)
qed

lemma core_cursample_indep:
  "snd (core A c (v\<lparr>cursample := x\<rparr>) rows) = snd (core A c v rows)"
proof (induction rows arbitrary: v)
  case Nil
  then show ?case by simp
next
  case (Cons row rows)
  show ?case
    using Cons.IH [of "fst (process A c row v)"]
    by (simp add: process_cursample_indep split_beta)
qed

lemma main_loop_core:
  "snd (main_loop A c v lns) = snd (core A c v (pick (nat (sampling c)) (nat (cursample v)) lns))"
proof (induction lns arbitrary: v)
  case Nil
  then show ?case by simp
next
  case (Cons row lns)
  show ?case
  proof (cases "cursample v > 1")
    case True
    then have "snd (main_loop A c v (row # lns)) = snd (main_loop A c (v\<lparr>cursample := cursample v - 1\<rparr>) lns)"
      by (simp add: loop_body_def split_beta)
    also have "\<dots> = snd (core A c (v\<lparr>cursample := cursample v - 1\<rparr>)
                     (pick (nat (sampling c)) (nat (cursample v - 1)) lns))"
      using Cons.IH [of "v\<lparr>cursample := cursample v - 1\<rparr>"] by simp
    also have "\<dots> = snd (core A c v (pick (nat (sampling c)) (nat (cursample v) - 1) lns))"
    proof -
      have "nat (cursample v - 1) = nat (cursample v) - 1" using True by linarith
      then show ?thesis by (simp add: core_cursample_indep)
    qed
    finally show ?thesis using True by simp
  next
    case False
    define w where "w = fst (process A c row v)"
    have "snd (main_loop A c v (row # lns)) =
        snd (process A c row v) # snd (main_loop A c (w\<lparr>cursample := sampling c\<rparr>) lns)"
      using False by (simp add: loop_body_def split_beta process_cursample_indep w_def)
    also have "snd (main_loop A c (w\<lparr>cursample := sampling c\<rparr>) lns) =
        snd (core A c w (pick (nat (sampling c)) (nat (sampling c)) lns))"
      using Cons.IH [of "w\<lparr>cursample := sampling c\<rparr>"] by (simp add: core_cursample_indep)
    finally show ?thesis using False by (simp add: split_beta w_def)
  qed
qed

lemma core_lines:
  "map (\<lambda>r. (o_timestamp r, o_meas r)) (snd (core A c v rows)) =
     map (\<lambda>row. (p1 row, curval row)) rows"
  by (induction rows arbitrary: v) (simp_all add: split_beta process_record)

lemma core_lineids:
  "map o_lineid (snd (core A c v rows)) = map (\<lambda>i. lineid v + 1 + int i) [0..<length rows]"
proof (induction rows arbitrary: v)
  case Nil
  then show ?case by simp
next
  case (Cons row rows)
  have "map o_lineid (snd (core A c v (row # rows))) =
      (lineid v + 1) # map o_lineid (snd (core A c (fst (process A c row v)) rows))"
    by (simp add: split_beta process_record)
  also have "map o_lineid (snd (core A c (fst (process A c row v)) rows)) =
      map (\<lambda>i. lineid v + 1 + int (Suc i)) [0..<length rows]"
    by (simp add: Cons.IH process_lineid)
  finally show ?case by (simp add: map_upt_Suc del: upt_Suc)
qed

lemma records_core:
  assumes "1 \<le> sampling c"
  shows "records A c lns = snd (core A c (init A c) (every_nth (nat (sampling c)) lns))"
proof -
  have "cursample (init A c) = sampling c" by (simp add: init_def)
  moreover have "1 \<le> nat (sampling c)" using assms by simp
  ultimately show ?thesis
    by (simp add: records_def main_loop_core pick_every_nth)
qed

lemma seven_args:
  "length (args :: int list) = 7 \<Longrightarrow> \<exists>a b c d e f g. args = [a, b, c, d, e, f, g]"
  by (simp add: eval_nat_numeral length_Suc_conv) blast

section \<open>Concrete runs\<close>

lemmas eval_defs = init_def loop_body_def process_def count_line_def pattern_evaluation_def
  alarm_evaluation_def wait_state_def thresholding_def amend_diffavg_def amended_def
  output_record_def elapsed_usec_def exact_def sample_def vars_at_def rec_at_def Let_def

lemmas parse_defs = parse_arguments_def from_argv_def invalid_values_def exact_def Let_def

lemma compares_ints_exact: "compares_ints exact"
  by (simp add: compares_ints_def exact_def)

lemma records_Nil: "records A c [] = []"
  by (simp add: records_def)

lemma records_accepted:
  "loop_body A c row (vars_after A c lns) = (v', Some r) \<Longrightarrow>
     records A c (lns @ [row]) = records A c lns @ [r]"
  by (simp add: records_snoc)

lemma vars_after_accepted:
  "loop_body A c row (vars_after A c lns) = (v', x) \<Longrightarrow> vars_after A c (lns @ [row]) = v'"
  by (simp add: vars_after_snoc)

text \<open>Run length 2: an unchanged value, a difference equal to the threshold, an alarm.\<close>

lemma parse_b: "parse_arguments exact [1, 2, 2, 10, 3, 2, 1] = Inr conf_b"
  by (simp add: parse_defs conf_b_def)

lemma at_b1:
  "loop_body exact conf_b (sample 0 10) (vars_after exact conf_b []) =
     (vars_at 0 0 2 0 1 10 1 0 0, Some (rec_at 1 10 0 1 0 0 0 0))"
  by (simp add: vars_after_def eval_defs conf_b_def)

lemma run_b1: "vars_after exact conf_b [sample 0 10] = vars_at 0 0 2 0 1 10 1 0 0"
  using vars_after_accepted [OF at_b1] by simp

lemma at_b2:
  "loop_body exact conf_b (sample 1 13) (vars_after exact conf_b [sample 0 10]) =
     (vars_at 0 0 1 0 2 13 1 0 0, Some (rec_at 2 13 3 1 1 0 0 0))"
  unfolding run_b1 by (simp add: eval_defs conf_b_def)

lemma run_b2:
  "vars_after exact conf_b [sample 0 10, sample 1 13] = vars_at 0 0 1 0 2 13 1 0 0"
  using vars_after_accepted [OF at_b2] by simp

lemma at_b3:
  "loop_body exact conf_b (sample 2 20) (vars_after exact conf_b [sample 0 10, sample 1 13]) =
     (vars_at 1 1 2 2 3 20 1 1 1, Some (rec_at 3 20 7 1 0 1 1 1))"
  unfolding run_b2 by (simp add: eval_defs conf_b_def)







text \<open>Run length 1: an alarm, the first line after the wait state, a second alarm.\<close>

lemma parse_d: "parse_arguments exact [1, 2, 1, 10, 3, 2, 1] = Inr conf_d"
  by (simp add: parse_defs conf_d_def)

lemma at_d1:
  "loop_body exact conf_d (sample 0 10) (vars_after exact conf_d []) =
     (vars_at 0 0 1 0 1 10 1 0 0, Some (rec_at 1 10 0 1 0 0 0 0))"
  by (simp add: vars_after_def eval_defs conf_d_def)

lemma run_d1: "vars_after exact conf_d [sample 0 10] = vars_at 0 0 1 0 1 10 1 0 0"
  using vars_after_accepted [OF at_d1] by simp

lemma at_d2:
  "loop_body exact conf_d (sample 1 20) (vars_after exact conf_d [sample 0 10]) =
     (vars_at 1 1 1 1 2 20 1 1 1, Some (rec_at 2 20 10 1 0 1 1 1))"
  unfolding run_d1 by (simp add: eval_defs conf_d_def)

lemma run_d2:
  "vars_after exact conf_d [sample 0 10, sample 1 20] = vars_at 1 1 1 1 2 20 1 1 1"
  using vars_after_accepted [OF at_d2] by simp

lemma at_d3:
  "loop_body exact conf_d (sample 12 40) (vars_after exact conf_d [sample 0 10, sample 1 20]) =
     (vars_at 0 0 1 1 3 40 (21 / 2) 1 0, Some (rec_at 3 40 20 (21 / 2) 0 0 0 0))"
  unfolding run_d2 by (simp add: eval_defs conf_d_def)

lemma run_d3:
  "vars_after exact conf_d [sample 0 10, sample 1 20, sample 12 40] =
     vars_at 0 0 1 1 3 40 (21 / 2) 1 0"
  using vars_after_accepted [OF at_d3] by simp

lemma at_d4:
  "loop_body exact conf_d (sample 13 80)
       (vars_after exact conf_d [sample 0 10, sample 1 20, sample 12 40]) =
     (vars_at 1 1 1 13 4 80 (21 / 2) 2 1, Some (rec_at 4 80 40 (21 / 2) 0 1 1 2))"
  unfolding run_d3 by (simp add: eval_defs conf_d_def)

text \<open>All parameters 1: the same value twice.\<close>

lemma parse_1: "parse_arguments exact [1, 1, 1, 1, 1, 1, 1] = Inr conf_1"
  by (simp add: parse_defs conf_1_def)

lemma at_11:
  "loop_body exact conf_1 (sample 0 5) (vars_after exact conf_1 []) =
     (vars_at 0 0 1 0 1 5 0 0 0, Some (rec_at 1 5 0 0 0 0 0 0))"
  by (simp add: vars_after_def eval_defs conf_1_def)

lemma run_11: "vars_after exact conf_1 [sample 0 5] = vars_at 0 0 1 0 1 5 0 0 0"
  using vars_after_accepted [OF at_11] by simp

lemma at_12:
  "loop_body exact conf_1 (sample 1 5) (vars_after exact conf_1 [sample 0 5]) =
     (vars_at 1 1 1 1 2 5 0 1 1, Some (rec_at 2 5 0 0 0 1 1 1))"
  unfolding run_11 by (simp add: eval_defs conf_1_def)

text \<open>Sampling 3.\<close>

lemma parse_c: "parse_arguments exact [3, 200, 5, 1000000, 10, 2, 250000] = Inr conf_c"
  by (simp add: parse_defs conf_c_def)

lemma nine_every_third: "every_nth 3 nine = [sample 3 3, sample 6 6, sample 9 9]"
  by (simp add: every_nth_def nine_def upt_rec)

section \<open>The claims\<close>

text \<open>
  C1 (as amended). For a configured stride \<open>k \<ge> 1\<close> the loop forwards to the rest of its body
  exactly the \<open>k\<close>-th, \<open>2k\<close>-th, \<open>3k\<close>-th, ... lines, in arrival order, and drops all others:
  the records printed are those the loop body prints when it is given these lines only,
  their \<open>lineid\<close> values are 1, 2, 3, ..., and their timestamp and value are those of these
  lines.
\<close>

theorem decimator_forwards_every_nth:
  assumes "parse_arguments A args = Inr c"
  shows "records A c lns = snd (core A c (init A c) (every_nth (nat (sampling c)) lns)) \<and>
     map o_lineid (records A c lns) = map (\<lambda>i. int i + 1) [0..<length lns div nat (sampling c)] \<and>
     map (\<lambda>r. (o_timestamp r, o_meas r)) (records A c lns) =
       map (\<lambda>row. (p1 row, curval row)) (every_nth (nat (sampling c)) lns)"
proof -
  have s: "1 \<le> sampling c" using assms parse_arguments_valid valid_bounds by blast
  have r: "records A c lns = snd (core A c (init A c) (every_nth (nat (sampling c)) lns))"
    using s by (rule records_core)
  have "lineid (init A c) = 0" by (simp add: init_def)
  then have "map o_lineid (records A c lns) = map (\<lambda>i. int i + 1) [0..<length lns div nat (sampling c)]"
    unfolding r by (simp add: core_lineids every_nth_def add.commute)
  moreover have "map (\<lambda>r. (o_timestamp r, o_meas r)) (records A c lns) =
       map (\<lambda>row. (p1 row, curval row)) (every_nth (nat (sampling c)) lns)"
    unfolding r by (rule core_lines)
  ultimately show ?thesis using r by simp
qed

text \<open>With stride 3 on nine lines: three records, for the 3rd, 6th and 9th line.\<close>

theorem decimator_forwards_every_nth_witness:
  "parse_arguments exact [3, 200, 5, 1000000, 10, 2, 250000] = Inr conf_c \<and>
   map o_lineid (records exact conf_c nine) = [1, 2, 3] \<and>
   map (\<lambda>r. (o_timestamp r, o_meas r)) (records exact conf_c nine) = [([], 3), ([], 6), ([], 9)]"
proof -
  have s: "nat (sampling conf_c) = 3" by (simp add: conf_c_def)
  have l: "length nine = 9" by (simp add: nine_def)
  note t = decimator_forwards_every_nth [OF parse_c, of nine]
  from t have "map o_lineid (records exact conf_c nine) =
      map (\<lambda>i. int i + 1) [0..<length nine div nat (sampling conf_c)]"
    by blast
  then have a: "map o_lineid (records exact conf_c nine) = [1, 2, 3]"
    unfolding s l by (simp add: upt_rec)
  from t have "map (\<lambda>r. (o_timestamp r, o_meas r)) (records exact conf_c nine) =
      map (\<lambda>row. (p1 row, curval row)) (every_nth (nat (sampling conf_c)) nine)"
    by blast
  then have b: "map (\<lambda>r. (o_timestamp r, o_meas r)) (records exact conf_c nine) =
      [([], 3), ([], 6), ([], 9)]"
    unfolding s nine_every_third by (simp add: sample_def)
  from parse_c a b show ?thesis by blast
qed

text \<open>
  The records are not those of the 1st, 4th and 7th line: the first line is dropped and the
  values printed are 3, 6 and 9.
\<close>

theorem decimator_counterexample:
  "map o_meas (records exact conf_c nine) = [3, 6, 9] \<and>
   map o_meas (records exact conf_c nine) \<noteq> map curval [sample 1 1, sample 4 4, sample 7 7]"
proof -
  have "map (\<lambda>r. (o_timestamp r, o_meas r)) (records exact conf_c nine) =
      map (\<lambda>row. (p1 row, curval row)) (every_nth 3 nine)"
    using records_core [of conf_c exact nine] by (simp add: conf_c_def core_lines)
  then have "map snd (map (\<lambda>r. (o_timestamp r, o_meas r)) (records exact conf_c nine)) =
      map snd (map (\<lambda>row. (p1 row, curval row)) (every_nth 3 nine))"
    by simp
  then have "map o_meas (records exact conf_c nine) = [3, 6, 9]"
    by (simp add: nine_every_third sample_def comp_def)
  then show ?thesis by (simp add: sample_def)
qed

text \<open>
  C2 (as amended). If an alarm fires on a line at time \<open>t0\<close> and the next accepted line
  arrives at \<open>t0 + wait_state_usec + 1\<close> microseconds, then on that line the wait state is
  left (its record shows \<open>iswait = 0\<close>), but the counting of lines 273 to 295 is not executed
  on that line: its record shows \<open>isalarm = 0\<close> and \<open>isdetect = 0\<close>, and \<open>numthresholded\<close>
  and \<open>patternid\<close> keep their values. The counting is executed again on the accepted line
  after it.
\<close>

theorem cooldown_expiry:
  assumes "parse_arguments A args = Inr c"
    and "loop_body A c row0 (vars_after A c lns) = (v0, Some r0)"
    and "o_isalarm r0 = 1"
    and "records A c (lns @ row0 # sk) = records A c (lns @ [row0])"
    and "loop_body A c row1 (vars_after A c (lns @ row0 # sk)) = (v1, Some r1)"
    and "elapsed_usec (curtime row1) (curtime row0) = wait_state_usec c + 1"
    and "records A c (lns @ row0 # sk @ row1 # sk') = records A c (lns @ row0 # sk @ [row1])"
    and "loop_body A c row2 (vars_after A c (lns @ row0 # sk @ row1 # sk')) = (v2, Some r2)"
  shows "o_iswait r1 = 0 \<and> o_isalarm r1 = 0 \<and> o_isdetect r1 = 0 \<and>
         numthresholded v1 = numthresholded v0 \<and> patternid v1 = patternid v0 \<and>
         (o_isalarm r2 = 1 \<longleftrightarrow>
            \<not> fless A (diff_of A row2 v1) (threshold A c v1) \<and>
            number_of_points_to_alarm c = 1) \<and>
         numthresholded v2 =
           (if fless A (diff_of A row2 v1) (threshold A c v1) then number_of_points_to_alarm c
            else if number_of_points_to_alarm c - 1 = 0 then number_of_points_to_alarm c
            else number_of_points_to_alarm c - 1)"
proof -
  note s0 = accepted_step [OF assms(1) refl assms(2)]
  note s1 = next_accepted [OF assms(2,4,5)]
  have raised: "alarm_raised A c row0 (vars_after A c lns)"
    using accepted_isalarm(1) [OF assms(1) refl assms(2)] assms(3) by (simp split: if_splits)
  have w0: "iswait v0 = 1"
    unfolding s0(3) using raised by (simp add: process_iswait alarm_raised_def)
  have t0: "alarmraisetime v0 = curtime row0"
    unfolding s0(3) using raised by (simp add: process_alarmraisetime)
  have n0: "numthresholded v0 = number_of_points_to_alarm c"
    using s0(2) w0 by (simp add: vars_ok_def)
  have w1: "iswait v1 = 0"
    unfolding s1(1) using w0 t0 assms(6) by (simp add: process_iswait)
  have a1: "isalarm v1 = 0"
    unfolding s1(1) using w0 by (simp add: process_isalarm)
  have n1: "numthresholded v1 = numthresholded v0"
    unfolding s1(1) using w0 by (simp add: process_numthresholded)
  have p1: "patternid v1 = patternid v0"
    unfolding s1(1) using w0 by (simp add: process_patternid alarm_raised_def)
  have r1: "o_iswait r1 = iswait v1" "o_isalarm r1 = isalarm v1"
    "o_isdetect r1 = (if numthresholded v1 = number_of_points_to_alarm c then 0 else 1)"
    unfolding s1 by (simp_all add: process_record)
  have step1: "loop_body A c row1 (vars_after A c (lns @ row0 # sk)) = (v1, Some r1)"
    by (rule assms(5))
  have gap: "records A c ((lns @ row0 # sk) @ row1 # sk') = records A c ((lns @ row0 # sk) @ [row1])"
    using assms(7) by simp
  have step2: "loop_body A c row2 (vars_after A c ((lns @ row0 # sk) @ row1 # sk')) = (v2, Some r2)"
    using assms(8) by simp
  note s2 = next_accepted [OF step1 gap step2]
  have a2: "o_isalarm r2 = (if alarm_raised A c row2 v1 then 1 else 0)"
    unfolding s2 using w1 a1 by (simp add: process_record process_isalarm)
  have n2: "numthresholded v2 =
      (if fless A (diff_of A row2 v1) (threshold A c v1) then number_of_points_to_alarm c
       else if numthresholded v1 - 1 = 0 then number_of_points_to_alarm c
       else numthresholded v1 - 1)"
    unfolding s2(1) using w1 by (simp add: process_numthresholded)
  have "alarm_raised A c row2 v1 \<longleftrightarrow>
      \<not> fless A (diff_of A row2 v1) (threshold A c v1) \<and> number_of_points_to_alarm c = 1"
    using w1 n1 n0 by (auto simp: alarm_raised_def)
  with a2 n2 r1 w1 a1 n1 n0 p1 show ?thesis by simp
qed

text \<open>
  An alarm at 1 microsecond with a wait of 10: the line at 12 microseconds leaves the wait
  state without counting, the line at 13 microseconds raises the next alarm.
\<close>

theorem cooldown_expiry_witness:
  "parse_arguments exact [1, 2, 1, 10, 3, 2, 1] = Inr conf_d \<and>
   loop_body exact conf_d (sample 1 20) (vars_after exact conf_d [sample 0 10]) =
     (vars_at 1 1 1 1 2 20 1 1 1, Some (rec_at 2 20 10 1 0 1 1 1)) \<and>
   o_isalarm (rec_at 2 20 10 1 0 1 1 1) = 1 \<and>
   loop_body exact conf_d (sample 12 40) (vars_after exact conf_d [sample 0 10, sample 1 20]) =
     (vars_at 0 0 1 1 3 40 (21 / 2) 1 0, Some (rec_at 3 40 20 (21 / 2) 0 0 0 0)) \<and>
   elapsed_usec (curtime (sample 12 40)) (curtime (sample 1 20)) = wait_state_usec conf_d + 1 \<and>
   loop_body exact conf_d (sample 13 80)
       (vars_after exact conf_d [sample 0 10, sample 1 20, sample 12 40]) =
     (vars_at 1 1 1 13 4 80 (21 / 2) 2 1, Some (rec_at 4 80 40 (21 / 2) 0 1 1 2)) \<and>
   o_iswait (rec_at 3 40 20 (21 / 2) 0 0 0 0) = 0 \<and>
   o_isalarm (rec_at 3 40 20 (21 / 2) 0 0 0 0) = 0 \<and>
   o_isdetect (rec_at 3 40 20 (21 / 2) 0 0 0 0) = 0 \<and>
   numthresholded (vars_at 0 0 1 1 3 40 (21 / 2) 1 0) = numthresholded (vars_at 1 1 1 1 2 20 1 1 1) \<and>
   patternid (vars_at 0 0 1 1 3 40 (21 / 2) 1 0) = patternid (vars_at 1 1 1 1 2 20 1 1 1)"
proof -
  have h3: "o_isalarm (rec_at 2 20 10 1 0 1 1 1) = 1" by (simp add: rec_at_def)
  have h4: "records exact conf_d ([sample 0 10] @ sample 1 20 # []) =
      records exact conf_d ([sample 0 10] @ [sample 1 20])" by simp
  have h5: "loop_body exact conf_d (sample 12 40)
        (vars_after exact conf_d ([sample 0 10] @ sample 1 20 # [])) =
      (vars_at 0 0 1 1 3 40 (21 / 2) 1 0, Some (rec_at 3 40 20 (21 / 2) 0 0 0 0))"
    using at_d3 by simp
  have h6: "elapsed_usec (curtime (sample 12 40)) (curtime (sample 1 20)) =
      wait_state_usec conf_d + 1"
    by (simp add: elapsed_usec_def sample_def conf_d_def)
  have h7: "records exact conf_d ([sample 0 10] @ sample 1 20 # [] @ sample 12 40 # []) =
      records exact conf_d ([sample 0 10] @ sample 1 20 # [] @ [sample 12 40])" by simp
  have h8: "loop_body exact conf_d (sample 13 80)
        (vars_after exact conf_d ([sample 0 10] @ sample 1 20 # [] @ sample 12 40 # [])) =
      (vars_at 1 1 1 13 4 80 (21 / 2) 2 1, Some (rec_at 4 80 40 (21 / 2) 0 1 1 2))"
    using at_d4 by simp
  note c = cooldown_expiry [OF parse_d at_d2 h3 h4 h5 h6 h7 h8]
  from c have "o_iswait (rec_at 3 40 20 (21 / 2) 0 0 0 0) = 0"
    "o_isalarm (rec_at 3 40 20 (21 / 2) 0 0 0 0) = 0"
    "o_isdetect (rec_at 3 40 20 (21 / 2) 0 0 0 0) = 0"
    "numthresholded (vars_at 0 0 1 1 3 40 (21 / 2) 1 0) = numthresholded (vars_at 1 1 1 1 2 20 1 1 1)"
    "patternid (vars_at 0 0 1 1 3 40 (21 / 2) 1 0) = patternid (vars_at 1 1 1 1 2 20 1 1 1)"
    by blast+
  with parse_d at_d2 h3 at_d3 h6 at_d4 show ?thesis by blast
qed

text \<open>
  The line at 12 microseconds differs from the previous value by 20, above the threshold 3,
  and one such line is enough for an alarm: lines 273 to 295, executed on that line once
  the wait state is left, would have set \<open>isalarm\<close>. The record printed shows
  \<open>iswait = 0\<close> and \<open>isalarm = 0\<close>.
\<close>

theorem cooldown_expiry_counterexample:
  "loop_body exact conf_d (sample 1 20) (vars_after exact conf_d [sample 0 10]) =
     (vars_at 1 1 1 1 2 20 1 1 1, Some (rec_at 2 20 10 1 0 1 1 1)) \<and>
   o_isalarm (rec_at 2 20 10 1 0 1 1 1) = 1 \<and>
   elapsed_usec (curtime (sample 12 40)) (curtime (sample 1 20)) = wait_state_usec conf_d + 1 \<and>
   loop_body exact conf_d (sample 12 40) (vars_after exact conf_d [sample 0 10, sample 1 20]) =
     (vars_at 0 0 1 1 3 40 (21 / 2) 1 0, Some (rec_at 3 40 20 (21 / 2) 0 0 0 0)) \<and>
   o_iswait (rec_at 3 40 20 (21 / 2) 0 0 0 0) = 0 \<and>
   o_isalarm (rec_at 3 40 20 (21 / 2) 0 0 0 0) = 0 \<and>
   isalarm (thresholding exact conf_d (curtime (sample 12 40))
     (diff_of exact (sample 12 40) (vars_at 1 1 1 1 2 20 1 1 1))
     (wait_state conf_d (curtime (sample 12 40))
       (pattern_evaluation conf_d (curtime (sample 12 40))
         (count_line (sample 12 40) (vars_at 1 1 1 1 2 20 1 1 1))))) = 1"
proof -
  have "o_isalarm (rec_at 2 20 10 1 0 1 1 1) = 1"
    "o_iswait (rec_at 3 40 20 (21 / 2) 0 0 0 0) = 0"
    "o_isalarm (rec_at 3 40 20 (21 / 2) 0 0 0 0) = 0"
    by (simp_all add: rec_at_def)
  moreover have "elapsed_usec (curtime (sample 12 40)) (curtime (sample 1 20)) =
      wait_state_usec conf_d + 1"
    by (simp add: elapsed_usec_def sample_def conf_d_def)
  moreover have "isalarm (thresholding exact conf_d (curtime (sample 12 40))
     (diff_of exact (sample 12 40) (vars_at 1 1 1 1 2 20 1 1 1))
     (wait_state conf_d (curtime (sample 12 40))
       (pattern_evaluation conf_d (curtime (sample 12 40))
         (count_line (sample 12 40) (vars_at 1 1 1 1 2 20 1 1 1))))) = 1"
    by (simp add: diff_of_def eval_defs conf_d_def)
  ultimately show ?thesis using at_d2 at_d3 by blast
qed



text \<open>
  C4. After the processing of any accepted line, \<open>numthresholded\<close> lies between 1 and
  \<open>number_of_points_to_alarm\<close>, and the \<open>isdetect\<close> flag printed for that line is 1 if and
  only if \<open>numthresholded\<close> differs from \<open>number_of_points_to_alarm\<close>.
\<close>

theorem remaining_to_alarm_range:
  assumes "parse_arguments A args = Inr c"
    and "loop_body A c row (vars_after A c lns) = (v', Some r)"
  shows "1 \<le> numthresholded v' \<and> numthresholded v' \<le> number_of_points_to_alarm c \<and>
     (o_isdetect r = 1 \<longleftrightarrow> numthresholded v' \<noteq> number_of_points_to_alarm c)"
proof -
  have "vars_ok c v'"
    using vars_ok_loop_body [OF vars_ok_run [OF assms(1)], of A row lns] assms(2) by simp
  moreover have "o_isdetect r = (if numthresholded v' = number_of_points_to_alarm c then 0 else 1)"
    using assms(2) by (simp add: loop_body_Some process_record)
  ultimately show ?thesis by (simp add: vars_ok_def)
qed

text \<open>The second line of a run of length 2 in progress: \<open>numthresholded = 1\<close>, \<open>isdetect = 1\<close>.\<close>

theorem remaining_to_alarm_range_witness:
  "parse_arguments exact [1, 2, 2, 10, 3, 2, 1] = Inr conf_b \<and>
   loop_body exact conf_b (sample 1 13) (vars_after exact conf_b [sample 0 10]) =
     (vars_at 0 0 1 0 2 13 1 0 0, Some (rec_at 2 13 3 1 1 0 0 0)) \<and>
   1 \<le> numthresholded (vars_at 0 0 1 0 2 13 1 0 0) \<and>
   numthresholded (vars_at 0 0 1 0 2 13 1 0 0) \<le> number_of_points_to_alarm conf_b \<and>
   (o_isdetect (rec_at 2 13 3 1 1 0 0 0) = 1 \<longleftrightarrow>
      numthresholded (vars_at 0 0 1 0 2 13 1 0 0) \<noteq> number_of_points_to_alarm conf_b)"
  using parse_b at_b2 remaining_to_alarm_range [OF parse_b at_b2] by blast

text \<open>
  C5. For every accepted line that is processed while \<open>iswait\<close> is 1, the \<open>isalarm\<close> flag
  printed is 0; \<open>isalarm\<close> is printed as 1 exactly on the line where the alarm is raised
  (line 285), and that line sets \<open>iswait\<close>, so that the record after it shows 0 again.
\<close>

theorem alarm_flag_edge_triggered:
  assumes "parse_arguments A args = Inr c" and "v = vars_after A c lns"
    and "loop_body A c row v = (v', Some r)"
  shows "(iswait v = 1 \<longrightarrow> o_isalarm r = 0) \<and>
         (o_isalarm r = 1 \<longleftrightarrow> alarm_raised A c row v) \<and>
         (alarm_raised A c row v \<longrightarrow> iswait v' = 1)"
  using accepted_isalarm [OF assms] by auto

text \<open>The line that follows an alarm, inside the wait state or at its end.\<close>

theorem alarm_flag_edge_triggered_witness:
  "parse_arguments exact [1, 2, 1, 10, 3, 2, 1] = Inr conf_d \<and>
   loop_body exact conf_d (sample 12 40) (vars_after exact conf_d [sample 0 10, sample 1 20]) =
     (vars_at 0 0 1 1 3 40 (21 / 2) 1 0, Some (rec_at 3 40 20 (21 / 2) 0 0 0 0)) \<and>
   iswait (vars_after exact conf_d [sample 0 10, sample 1 20]) = 1 \<and>
   o_isalarm (rec_at 3 40 20 (21 / 2) 0 0 0 0) = 0 \<and>
   loop_body exact conf_d (sample 1 20) (vars_after exact conf_d [sample 0 10]) =
     (vars_at 1 1 1 1 2 20 1 1 1, Some (rec_at 2 20 10 1 0 1 1 1)) \<and>
   alarm_raised exact conf_d (sample 1 20) (vars_after exact conf_d [sample 0 10]) \<and>
   o_isalarm (rec_at 2 20 10 1 0 1 1 1) = 1 \<and>
   iswait (vars_at 1 1 1 1 2 20 1 1 1) = 1"
proof -
  have w: "iswait (vars_after exact conf_d [sample 0 10, sample 1 20]) = 1"
    by (simp add: run_d2 vars_at_def)
  have a: "alarm_raised exact conf_d (sample 1 20) (vars_after exact conf_d [sample 0 10])"
    unfolding run_d1
    by (simp add: alarm_raised_def diff_of_def threshold_def count_line_def exact_def
        sample_def vars_at_def conf_d_def)
  from alarm_flag_edge_triggered [OF parse_d refl at_d3] w
  have "o_isalarm (rec_at 3 40 20 (21 / 2) 0 0 0 0) = 0" by blast
  moreover from alarm_flag_edge_triggered [OF parse_d refl at_d2] a
  have "o_isalarm (rec_at 2 20 10 1 0 1 1 1) = 1" "iswait (vars_at 1 1 1 1 2 20 1 1 1) = 1"
    by blast+
  ultimately show ?thesis using parse_d at_d3 w at_d2 a by blast
qed

text \<open>
  C6. Across a whole run \<open>patternid\<close> never decreases (hence is never reset): its value
  after any further lines is at least its value before them. One line increases it by
  exactly 1 if the line is accepted and the alarm is raised on it, and leaves it unchanged
  otherwise.
\<close>

theorem pattern_id_monotone:
  "patternid (vars_after A c lns) \<le> patternid (vars_after A c (lns @ lns2)) \<and>
   patternid (fst (loop_body A c row (vars_after A c lns))) =
     patternid (vars_after A c lns) +
       (if snd (loop_body A c row (vars_after A c lns)) \<noteq> None \<and>
           alarm_raised A c row (vars_after A c lns) then 1 else 0)"
proof
  show "patternid (vars_after A c lns) \<le> patternid (vars_after A c (lns @ lns2))"
    by (simp add: vars_after_def main_loop_append main_loop_patternid)
  show "patternid (fst (loop_body A c row (vars_after A c lns))) =
     patternid (vars_after A c lns) +
       (if snd (loop_body A c row (vars_after A c lns)) \<noteq> None \<and>
           alarm_raised A c row (vars_after A c lns) then 1 else 0)"
    by (rule loop_body_patternid)
qed

text \<open>Two alarms in four lines: \<open>patternid\<close> goes from 0 to 1 on the second line.\<close>

theorem pattern_id_monotone_witness:
  "patternid (vars_after exact conf_d [sample 0 10]) = 0 \<and>
   patternid (fst (loop_body exact conf_d (sample 1 20) (vars_after exact conf_d [sample 0 10]))) = 1 \<and>
   patternid (vars_after exact conf_d [sample 0 10])
     \<le> patternid (vars_after exact conf_d ([sample 0 10] @ [sample 1 20, sample 12 40]))"
proof -
  have "patternid (vars_after exact conf_d [sample 0 10]) = 0"
    by (simp add: run_d1 vars_at_def)
  moreover have "patternid (fst (loop_body exact conf_d (sample 1 20)
      (vars_after exact conf_d [sample 0 10]))) = 1"
    by (simp add: at_d2 vars_at_def)
  ultimately show ?thesis
    using pattern_id_monotone [of exact conf_d "[sample 0 10]" "[sample 1 20, sample 12 40]"]
    by blast
qed

text \<open>
  C7. If the program is called with one to six arguments, or with seven arguments one of
  which has a value of 0 or less, it writes a message to \<open>cerr\<close>, returns 1 and prints
  nothing, whatever the input lines are (none of them is read); called without arguments
  it runs with the built-in values. The arithmetic is assumed to compare the converted
  \<open>int\<close> values with 1 as the integers compare.
\<close>

theorem configuration_errors:
  assumes "compares_ints A"
  shows "(0 < length args \<and> length args < 7 \<longrightarrow>
            main A args lns =
              \<lparr>exit_status = 1, cerr = [ArgumentsError (int (length args))], cout = []\<rparr>) \<and>
         (length args = 7 \<and> (\<exists>i\<in>set args. i \<le> 0) \<longrightarrow>
            main A args lns =
              \<lparr>exit_status = 1, cerr = [InvalidValues (from_argv args)], cout = []\<rparr>) \<and>
         main A [] lns =
           \<lparr>exit_status = 0, cerr = [],
            cout = Header # map Data (records A defaults lns)\<rparr>"
proof (intro conjI impI)
  assume "0 < length args \<and> length args < 7"
  then show "main A args lns =
      \<lparr>exit_status = 1, cerr = [ArgumentsError (int (length args))], cout = []\<rparr>"
    by (simp add: main_def parse_arguments_def Let_def)
next
  assume a: "length args = 7 \<and> (\<exists>i\<in>set args. i \<le> 0)"
  then obtain a b c d e f g where args: "args = [a, b, c, d, e, f, g]"
    using seven_args by blast
  have "fless A (of_int32 A b) (of_int32 A 1) \<longleftrightarrow> b < 1"
    using assms by (simp add: compares_ints_def)
  then have "invalid_values A (from_argv args)"
    using a unfolding args by (auto simp: invalid_values_def from_argv_def)
  then show "main A args lns =
      \<lparr>exit_status = 1, cerr = [InvalidValues (from_argv args)], cout = []\<rparr>"
    using a by (simp add: main_def parse_arguments_def Let_def)
next
  have "\<not> fless A (of_int32 A 200) (of_int32 A 1)"
    using assms by (simp add: compares_ints_def)
  then have "\<not> invalid_values A defaults"
    by (simp add: invalid_values_def defaults_def)
  then show "main A [] lns =
      \<lparr>exit_status = 0, cerr = [], cout = Header # map Data (records A defaults lns)\<rparr>"
    by (simp add: main_def parse_arguments_def Let_def records_def)
qed

text \<open>Two arguments; seven arguments with a run length of 0; no argument.\<close>

theorem configuration_errors_witness:
  "compares_ints exact \<and>
   main exact [1, 2] [sample 0 10] =
     \<lparr>exit_status = 1, cerr = [ArgumentsError 2], cout = []\<rparr> \<and>
   main exact [1, 2, 0, 10, 3, 2, 1] [sample 0 10] =
     \<lparr>exit_status = 1, cerr = [InvalidValues (from_argv [1, 2, 0, 10, 3, 2, 1])], cout = []\<rparr> \<and>
   main exact [] [] = \<lparr>exit_status = 0, cerr = [], cout = [Header]\<rparr>"
proof -
  have "main exact [1, 2] [sample 0 10] =
     \<lparr>exit_status = 1, cerr = [ArgumentsError 2], cout = []\<rparr>"
    using configuration_errors [OF compares_ints_exact, of "[1, 2]" "[sample 0 10]"] by simp
  moreover have "main exact [1, 2, 0, 10, 3, 2, 1] [sample 0 10] =
     \<lparr>exit_status = 1, cerr = [InvalidValues (from_argv [1, 2, 0, 10, 3, 2, 1])], cout = []\<rparr>"
    using configuration_errors [OF compares_ints_exact, of "[1, 2, 0, 10, 3, 2, 1]" "[sample 0 10]"]
    by simp
  moreover have "main exact [] [] = \<lparr>exit_status = 0, cerr = [], cout = [Header]\<rparr>"
    using configuration_errors [OF compares_ints_exact, of "[]" "[]"]
    by (simp add: records_Nil)
  ultimately show ?thesis using compares_ints_exact by blast
qed

text \<open>
  C8, at the input where the program departs from it. With multiplier 3 and \<open>diffavg = 1\<close>
  the threshold is 3; the second line differs from the first by exactly 3, outside the wait
  state. The claim has this line reset \<open>numthresholded\<close> to 2; the test \<open>diff < 3\<close> of line
  273 fails, \<open>numthresholded\<close> is decremented to 1 and \<open>isdetect = 1\<close> is printed.
\<close>

theorem equality_counts_as_exceedance:
  "parse_arguments exact [1, 2, 2, 10, 3, 2, 1] = Inr conf_b \<and>
   iswait (vars_after exact conf_b [sample 0 10]) = 0 \<and>
   numthresholded (vars_after exact conf_b [sample 0 10]) = 2 \<and>
   diff_of exact (sample 1 13) (vars_after exact conf_b [sample 0 10]) = 3 \<and>
   threshold exact conf_b (vars_after exact conf_b [sample 0 10]) = 3 \<and>
   numthresholded (vars_after exact conf_b [sample 0 10, sample 1 13]) = 1 \<and>
   records exact conf_b [sample 0 10, sample 1 13] =
     [rec_at 1 10 0 1 0 0 0 0, rec_at 2 13 3 1 1 0 0 0]"
proof -
  have "iswait (vars_after exact conf_b [sample 0 10]) = 0"
    "numthresholded (vars_after exact conf_b [sample 0 10]) = 2"
    "numthresholded (vars_after exact conf_b [sample 0 10, sample 1 13]) = 1"
    by (simp_all add: run_b1 run_b2 vars_at_def)
  moreover have "diff_of exact (sample 1 13) (vars_after exact conf_b [sample 0 10]) = 3"
    "threshold exact conf_b (vars_after exact conf_b [sample 0 10]) = 3"
    unfolding run_b1
    by (simp_all add: diff_of_def threshold_def count_line_def exact_def sample_def vars_at_def
        conf_b_def)
  moreover have "records exact conf_b [sample 0 10, sample 1 13] =
     [rec_at 1 10 0 1 0 0 0 0, rec_at 2 13 3 1 1 0 0 0]"
    using records_accepted [OF at_b1] records_accepted [OF at_b2] by (simp add: records_Nil)
  ultimately show ?thesis using parse_b by blast
qed

text \<open>
  C9, at the input where the program departs from it. With every parameter 1 and the value
  5 read twice, both records have \<open>diff = 0\<close> and \<open>diffavg\<close> falls from 1 to 0, but the
  second record has \<open>isalarm = 1\<close>: \<open>diff < 1 * 0\<close> is false at line 273.
\<close>

theorem constant_signal_alarm:
  "parse_arguments exact [1, 1, 1, 1, 1, 1, 1] = Inr conf_1 \<and>
   curval (sample 0 5) = curval (sample 1 5) \<and>
   records exact conf_1 [sample 0 5, sample 1 5] =
     [rec_at 1 5 0 0 0 0 0 0, rec_at 2 5 0 0 0 1 1 1] \<and>
   o_diff (rec_at 2 5 0 0 0 1 1 1) = 0 \<and>
   o_isalarm (rec_at 2 5 0 0 0 1 1 1) = 1"
proof -
  have "records exact conf_1 [sample 0 5, sample 1 5] =
     [rec_at 1 5 0 0 0 0 0 0, rec_at 2 5 0 0 0 1 1 1]"
    using records_accepted [OF at_11] records_accepted [OF at_12] by (simp add: records_Nil)
  moreover have "curval (sample 0 5) = curval (sample 1 5)"
    "o_diff (rec_at 2 5 0 0 0 1 1 1) = 0" "o_isalarm (rec_at 2 5 0 0 0 1 1 1) = 1"
    by (simp_all add: sample_def rec_at_def)
  ultimately show ?thesis using parse_1 by blast
qed

text \<open>
  C10. On every accepted line on which the alarm is raised, the record printed shows
  \<open>isalarm = 1\<close> and \<open>iswait = 1\<close>, and its last field is the value of \<open>patternid\<close> just
  incremented, which is greater than 0.
\<close>

theorem alarm_record:
  assumes "parse_arguments A args = Inr c" and "v = vars_after A c lns"
    and "loop_body A c row v = (v', Some r)" and "alarm_raised A c row v"
  shows "o_isalarm r = 1 \<and> o_iswait r = 1 \<and> patternid v' = patternid v + 1 \<and>
         o_patternid r = patternid v' \<and> 0 < o_patternid r"
proof -
  note s = accepted_step [OF assms(1-3)]
  have p: "0 \<le> patternid v" using s(1) by (simp add: vars_ok_def)
  have n: "iswait v \<noteq> 1" using assms(4) by (simp add: alarm_raised_def)
  have "o_isalarm r = 1" "o_iswait r = 1"
    unfolding s(4) using assms(4) n by (simp_all add: process_record process_isalarm process_iswait)
  moreover have "patternid v' = patternid v + 1"
    unfolding s(3) using assms(4) by (simp add: process_patternid)
  moreover have "o_patternid r = patternid v + 1"
    unfolding s(4) using assms(4) by (simp add: process_record process_ispattern process_patternid)
  ultimately show ?thesis using p by simp
qed

text \<open>The third line of the run with run length 2 completes the run: pattern 1 starts.\<close>

theorem alarm_record_witness:
  "parse_arguments exact [1, 2, 2, 10, 3, 2, 1] = Inr conf_b \<and>
   loop_body exact conf_b (sample 2 20) (vars_after exact conf_b [sample 0 10, sample 1 13]) =
     (vars_at 1 1 2 2 3 20 1 1 1, Some (rec_at 3 20 7 1 0 1 1 1)) \<and>
   alarm_raised exact conf_b (sample 2 20) (vars_after exact conf_b [sample 0 10, sample 1 13]) \<and>
   o_isalarm (rec_at 3 20 7 1 0 1 1 1) = 1 \<and> o_iswait (rec_at 3 20 7 1 0 1 1 1) = 1 \<and>
   o_patternid (rec_at 3 20 7 1 0 1 1 1) = patternid (vars_at 1 1 2 2 3 20 1 1 1) \<and>
   0 < o_patternid (rec_at 3 20 7 1 0 1 1 1)"
proof -
  have a: "alarm_raised exact conf_b (sample 2 20)
      (vars_after exact conf_b [sample 0 10, sample 1 13])"
    unfolding run_b2
    by (simp add: alarm_raised_def diff_of_def threshold_def count_line_def exact_def
        sample_def vars_at_def conf_b_def)
  from alarm_record [OF parse_b refl at_b3 a] parse_b at_b3 a show ?thesis by blast
qed

end
